theory Spec2Isabelle
  imports Main
begin

section \<open>Text primitives of the host language\<close>

text \<open>
  The interpreter of \<^verbatim>\<open>interpreter/main.py\<close> works on Python strings.  A string is
  modelled as a \<open>string\<close> (a list of characters); the model covers ASCII text, so the
  character classes of the regular expressions (\<^verbatim>\<open>\w\<close>, \<^verbatim>\<open>\s\<close>, \<^verbatim>\<open>\d\<close>) and
  \<^verbatim>\<open>str.lower\<close> are the ASCII ones, and every character beyond ASCII is an ordinary
  character that is neither a word character nor white space.
\<close>

definition dquote :: char where
  "dquote = CHR 0x22"

definition newline :: char where
  "newline = CHR 0x0A"

definition isspace :: "char \<Rightarrow> bool" where
  "isspace c \<longleftrightarrow>
     (let n = (of_char c :: nat) in (9 \<le> n \<and> n \<le> 13) \<or> (28 \<le> n \<and> n \<le> 32))"

definition isdigit :: "char \<Rightarrow> bool" where
  "isdigit c \<longleftrightarrow> (let n = (of_char c :: nat) in 48 \<le> n \<and> n \<le> 57)"

definition isword :: "char \<Rightarrow> bool" where
  "isword c \<longleftrightarrow>
     (let n = (of_char c :: nat)
      in (48 \<le> n \<and> n \<le> 57) \<or> (65 \<le> n \<and> n \<le> 90) \<or> n = 95 \<or> (97 \<le> n \<and> n \<le> 122))"

definition lower_char :: "char \<Rightarrow> char" where
  "lower_char c =
     (let n = (of_char c :: nat) in if 65 \<le> n \<and> n \<le> 90 then char_of (n + 32) else c)"

definition lower :: "string \<Rightarrow> string" where
  "lower s = map lower_char s"

definition lstrip :: "string \<Rightarrow> string" where
  "lstrip s = dropWhile isspace s"

definition rstrip :: "string \<Rightarrow> string" where
  "rstrip s = rev (dropWhile isspace (rev s))"

definition strip :: "string \<Rightarrow> string" where
  "strip s = rstrip (lstrip s)"

text \<open>\<^verbatim>\<open>s.rstrip(c)\<close> and \<^verbatim>\<open>s.strip(c)\<close> for a one-character argument.\<close>

definition rstrip_char :: "char \<Rightarrow> string \<Rightarrow> string" where
  "rstrip_char c s = rev (dropWhile (\<lambda>x. x = c) (rev s))"

definition strip_char :: "char \<Rightarrow> string \<Rightarrow> string" where
  "strip_char c s = rstrip_char c (dropWhile (\<lambda>x. x = c) s)"

definition startswith :: "string \<Rightarrow> string \<Rightarrow> bool" where
  "startswith s p \<longleftrightarrow> take (length p) s = p"

definition endswith :: "string \<Rightarrow> string \<Rightarrow> bool" where
  "endswith s p \<longleftrightarrow> startswith (rev s) (rev p)"

text \<open>\<^verbatim>\<open>p in s\<close> for strings: \<open>p\<close> occurs in \<open>s\<close> as a substring.\<close>

fun contains :: "string \<Rightarrow> string \<Rightarrow> bool" where
  "contains [] p = (p = [])"
| "contains (c # cs) p = (startswith (c # cs) p \<or> contains cs p)"

text \<open>
  \<^verbatim>\<open>s.split(sep, 1)\<close> where \<open>sep\<close> occurs in \<open>s\<close>: the text before the first occurrence
  and the text after it.  Where \<open>sep\<close> does not occur the whole of \<open>s\<close> is the first part
  (the source calls it only under the test \<^verbatim>\<open>sep in s\<close>).
\<close>

fun split1 :: "string \<Rightarrow> string \<Rightarrow> string \<times> string" where
  "split1 [] sep = ([], [])"
| "split1 (c # cs) sep =
     (if startswith (c # cs) sep then ([], drop (length sep) (c # cs))
      else (let (l, r) = split1 cs sep in (c # l, r)))"

text \<open>\<^verbatim>\<open>sep.join(parts)\<close>.\<close>

fun join :: "string \<Rightarrow> string list \<Rightarrow> string" where
  "join sep [] = []"
| "join sep [x] = x"
| "join sep (x # y # ys) = x @ sep @ join sep (y # ys)"

text \<open>
  Decimal numerals: the text of a natural number and of an integer, and the value of a
  run of digits.  Python's integers are unbounded; the limit that \<^verbatim>\<open>int\<close> and \<^verbatim>\<open>str\<close>
  put on the number of digits is modelled with the values, below.
\<close>

definition digit_char :: "nat \<Rightarrow> char" where
  "digit_char d = char_of (48 + d)"

fun str_nat_fuel :: "nat \<Rightarrow> nat \<Rightarrow> string" where
  "str_nat_fuel 0 n = []"
| "str_nat_fuel (Suc k) n =
     (if n < 10 then [digit_char n] else str_nat_fuel k (n div 10) @ [digit_char (n mod 10)])"

definition str_nat :: "nat \<Rightarrow> string" where
  "str_nat n = str_nat_fuel (Suc n) n"

definition str_int :: "int \<Rightarrow> string" where
  "str_int i = (if i < 0 then CHR ''-'' # str_nat (nat (- i)) else str_nat (nat i))"

definition digit_val :: "char \<Rightarrow> nat" where
  "digit_val c = (of_char c :: nat) - 48"

definition nat_of_digits :: "string \<Rightarrow> nat" where
  "nat_of_digits s = foldl (\<lambda>acc c. 10 * acc + digit_val c) 0 s"

section \<open>The attribute parser\<close>

text \<open>
  \<^verbatim>\<open>parse_attributes\<close> collects the matches of
  \<^verbatim>\<open>(\w+)=(?:"([^"]*)"|([^"\s,]+))\<close> with \<^verbatim>\<open>re.findall\<close>.

  \<open>attr_match s\<close> is one attempt to match the pattern at the start of \<open>s\<close>: the three
  groups (a group that takes no part in the match is \<open>None\<close>) and the text after the
  match.  The word run is followed by \<^verbatim>\<open>=\<close>, which is no word character, so only the
  longest run can match; a quoted value without its closing quote fails, because the
  second alternative cannot start with a quote either.
\<close>

definition attr_match :: "string \<Rightarrow> ((string \<times> string option \<times> string option) \<times> string) option" where
  "attr_match s =
     (let key = takeWhile isword s; r = dropWhile isword s
      in if key = [] then None
         else case r of
           [] \<Rightarrow> None
         | e # r1 \<Rightarrow>
             if e \<noteq> CHR ''='' then None
             else case r1 of
               [] \<Rightarrow> None
             | q # r2 \<Rightarrow>
                 if q = dquote then
                   (case dropWhile (\<lambda>c. c \<noteq> dquote) r2 of
                      [] \<Rightarrow> None
                    | _ # r3 \<Rightarrow> Some ((key, Some (takeWhile (\<lambda>c. c \<noteq> dquote) r2), None), r3))
                 else
                   (let bare = (\<lambda>c. c \<noteq> dquote \<and> \<not> isspace c \<and> c \<noteq> CHR '','')
                    in if takeWhile bare r1 = [] then None
                       else Some ((key, None, Some (takeWhile bare r1)), dropWhile bare r1)))"

lemma attr_match_shorter:
  assumes "attr_match s = Some (g, rest)"
  shows "length rest < length s"
proof -
  have dw: "length (dropWhile P xs) \<le> length xs" for P and xs :: string
    by (simp add: length_dropWhile_le)
  obtain e r1 where r: "dropWhile isword s = e # r1"
    using assms by (auto simp: attr_match_def Let_def split: if_splits list.splits)
  have l1: "length r1 < length s"
    using dw [of isword s] by (simp add: r)
  obtain q r2 where r1: "r1 = q # r2"
    using assms r by (auto simp: attr_match_def Let_def split: if_splits list.splits)
  show ?thesis
  proof (cases "q = dquote")
    case True
    then obtain x where "dropWhile (\<lambda>c. c \<noteq> dquote) r2 = x # rest"
      using assms r r1 by (auto simp: attr_match_def Let_def split: if_splits list.splits)
    then have "length rest < length r2"
      using dw [of "\<lambda>c. c \<noteq> dquote" r2] by simp
    then show ?thesis using l1 r1 by simp
  next
    case False
    then have "rest = dropWhile (\<lambda>c. c \<noteq> dquote \<and> \<not> isspace c \<and> c \<noteq> CHR '','') r1"
      using assms r r1 by (auto simp: attr_match_def Let_def split: if_splits list.splits)
    then have "length rest \<le> length r1"
      using dw by simp
    then show ?thesis using l1 by simp
  qed
qed

text \<open>
  \<^verbatim>\<open>re.findall\<close>: scan from the left; after a match continue behind it, otherwise one
  character further.  With several groups each match is the tuple of the groups, and a
  group that took no part in the match is reported as the empty string.
\<close>

function findall_attrs :: "string \<Rightarrow> (string \<times> string \<times> string) list" where
  "findall_attrs [] = []"
| "findall_attrs (c # cs) =
     (case attr_match (c # cs) of
        None \<Rightarrow> findall_attrs cs
      | Some ((key, val1, val2), rest) \<Rightarrow>
          (key, case_option [] id val1, case_option [] id val2) # findall_attrs rest)"
  by pat_completeness auto
termination findall_attrs
  by (relation "measure length") (auto dest: attr_match_shorter)

text \<open>
  A Python \<^verbatim>\<open>dict\<close> keeps its keys in the order of their first insertion; storing under
  a key that is present replaces the value in place.
\<close>

type_synonym attrs = "(string \<times> string) list"

fun dict_set :: "attrs \<Rightarrow> string \<Rightarrow> string \<Rightarrow> attrs" where
  "dict_set [] k v = [(k, v)]"
| "dict_set ((k', v') # kvs) k v =
     (if k' = k then (k, v) # kvs else (k', v') # dict_set kvs k v)"

text \<open>
  The loop \<^verbatim>\<open>attributes[key] = val1 if val1 is not None else val2\<close>: the values that
  \<^verbatim>\<open>findall\<close> returns are strings, never \<^verbatim>\<open>None\<close>, so the test holds for every
  match and \<open>val1\<close> is stored.
\<close>

fun store_matches :: "attrs \<Rightarrow> (string \<times> string \<times> string) list \<Rightarrow> attrs" where
  "store_matches attributes [] = attributes"
| "store_matches attributes ((key, val1, val2) # ms) =
     store_matches (dict_set attributes key val1) ms"

definition parse_attributes :: "string \<Rightarrow> attrs" where
  "parse_attributes attr_string =
     (if attr_string = [] then [] else store_matches [] (findall_attrs attr_string))"

section \<open>Values, the variable store and the host evaluator\<close>

text \<open>
  A variable holds what \<^verbatim>\<open>set\<close> stored: \<^verbatim>\<open>None\<close>, a boolean, an integer, a string, or
  another object of the host language (a float made by \<^verbatim>\<open>float\<close>, or whatever \<^verbatim>\<open>eval\<close>
  returned).  The type \<open>'h\<close> stands for these other objects.
\<close>

datatype 'h pyval = PNone | PBool bool | PInt int | PStr string | PHost 'h

type_synonym 'h store = "string \<rightharpoonup> 'h pyval"

datatype py_exception =
  NameError | SyntaxError | TypeError | ValueError string | IndexError | KeyError | OtherException

datatype 'h eval_outcome = Returned "'h pyval" | Raised py_exception

text \<open>
  A call that returns a value or raises is a value of a sum type, with the exception on
  the left.  \<open>and_then r f\<close> goes on with \<open>f\<close> when \<open>r\<close> returned, and raises what \<open>r\<close>
  raised otherwise.
\<close>

definition and_then :: "py_exception + 'a \<Rightarrow> ('a \<Rightarrow> py_exception + 'b) \<Rightarrow> py_exception + 'b" where
  "and_then r f = (case r of Inl e \<Rightarrow> Inl e | Inr x \<Rightarrow> f x)"

text \<open>
  The functions of the Python runtime that the interpreter calls and that are no code of
  the repository are parameters of the model:
  \<^item> \<open>py_eval expr vars\<close> is \<^verbatim>\<open>eval(expr, safe_globals, vars)\<close>: what it returns or
    raises, and the store afterwards (an assignment expression can write to it);
  \<^item> \<open>py_float lit\<close> is \<^verbatim>\<open>float(lit)\<close> on a literal that matched the number pattern;
  \<^item> \<open>py_str\<close> and \<open>py_bool\<close> are \<^verbatim>\<open>str\<close> and \<^verbatim>\<open>bool\<close> on the other host objects:
    what they return or raise.
\<close>

record 'h host =
  py_eval :: "string \<Rightarrow> 'h store \<Rightarrow> 'h eval_outcome \<times> 'h store"
  py_float :: "string \<Rightarrow> 'h"
  py_str :: "'h \<Rightarrow> py_exception + string"
  py_bool :: "'h \<Rightarrow> py_exception + bool"

subsection \<open>The limit on the digits of an integer\<close>

text \<open>
  Python refuses to convert between a string and an integer of more than
  \<^verbatim>\<open>sys.get_int_max_str_digits()\<close> decimal digits, 4300 unless the process is started
  with another limit: \<^verbatim>\<open>int\<close> and \<^verbatim>\<open>str\<close> raise \<^verbatim>\<open>ValueError\<close> then.  \<^verbatim>\<open>int\<close> counts
  the digits of the string, leading zeros among them and the sign not; \<^verbatim>\<open>str\<close> counts
  the digits of the number.
\<close>

definition int_max_str_digits :: nat where
  "int_max_str_digits = 4300"

definition int_limit_error :: "nat \<Rightarrow> py_exception" where
  "int_limit_error digits =
     ValueError
       (''Exceeds the limit ('' @ str_nat int_max_str_digits @
        '' digits) for integer string conversion: value has '' @ str_nat digits @
        '' digits; use sys.set_int_max_str_digits() to increase the limit'')"

definition str_limit_error :: py_exception where
  "str_limit_error =
     ValueError
       (''Exceeds the limit ('' @ str_nat int_max_str_digits @
        '' digits) for integer string conversion; '' @
        ''use sys.set_int_max_str_digits() to increase the limit'')"

text \<open>
  \<^verbatim>\<open>int(s)\<close> on a string that matched \<^verbatim>\<open>-?\d+\<close>: an optional sign and a run of digits.
\<close>

definition py_int :: "string \<Rightarrow> py_exception + int" where
  "py_int s =
     (case s of
        [] \<Rightarrow> Inr 0
      | c # cs \<Rightarrow>
          if c = CHR ''-'' then
            (if int_max_str_digits < length cs then Inl (int_limit_error (length cs))
             else Inr (- int (nat_of_digits cs)))
          else
            (if int_max_str_digits < length s then Inl (int_limit_error (length s))
             else Inr (int (nat_of_digits s))))"

text \<open>\<^verbatim>\<open>str(v)\<close> and \<^verbatim>\<open>bool(v)\<close>.\<close>

fun str_of :: "'h host \<Rightarrow> 'h pyval \<Rightarrow> py_exception + string" where
  "str_of H PNone = Inr ''None''"
| "str_of H (PBool b) = Inr (if b then ''True'' else ''False'')"
| "str_of H (PInt i) =
     (if 10 ^ int_max_str_digits \<le> \<bar>i\<bar> then Inl str_limit_error else Inr (str_int i))"
| "str_of H (PStr s) = Inr s"
| "str_of H (PHost h) = py_str H h"

fun bool_of :: "'h host \<Rightarrow> 'h pyval \<Rightarrow> py_exception + bool" where
  "bool_of H PNone = Inr False"
| "bool_of H (PBool b) = Inr b"
| "bool_of H (PInt i) = Inr (i \<noteq> 0)"
| "bool_of H (PStr s) = Inr (s \<noteq> [])"
| "bool_of H (PHost h) = py_bool H h"

subsection \<open>Interpolation\<close>

text \<open>One attempt to match \<^verbatim>\<open>\$\{(\w+)\}\<close> at the start of the text: the name and the rest.\<close>

definition var_ref_match :: "string \<Rightarrow> (string \<times> string) option" where
  "var_ref_match s =
     (if \<not> startswith s ''${'' then None
      else let r = drop 2 s; var_name = takeWhile isword r
           in if var_name = [] then None
              else case dropWhile isword r of
                     [] \<Rightarrow> None
                   | b # rest \<Rightarrow> if b = CHR ''}'' then Some (var_name, rest) else None)"

lemma var_ref_match_shorter:
  assumes "var_ref_match s = Some (v, rest)"
  shows "length rest < length s"
proof -
  obtain b where "dropWhile isword (drop 2 s) = b # rest"
    using assms by (auto simp: var_ref_match_def Let_def split: if_splits list.splits)
  then have "Suc (length rest) \<le> length (drop 2 s)"
    using length_dropWhile_le [of isword "drop 2 s"] by simp
  then show ?thesis by simp
qed

text \<open>
  \<^verbatim>\<open>replace_var\<close>: \<^verbatim>\<open>str(variables.get(var_name, f"UNDEFINED_VAR_{var_name}"))\<close>.
\<close>

definition replace_var :: "'h host \<Rightarrow> 'h store \<Rightarrow> string \<Rightarrow> py_exception + string" where
  "replace_var H vars var_name =
     (case vars var_name of
        None \<Rightarrow> Inr (''UNDEFINED_VAR_'' @ var_name)
      | Some v \<Rightarrow> str_of H v)"

text \<open>
  \<^verbatim>\<open>re.sub\<close> over the text, left to right: the first replacement that raises ends it.
\<close>

function interpolate_variables :: "'h host \<Rightarrow> 'h store \<Rightarrow> string \<Rightarrow> py_exception + string" where
  "interpolate_variables H vars [] = Inr []"
| "interpolate_variables H vars (c # cs) =
     (case var_ref_match (c # cs) of
        None \<Rightarrow>
          (case interpolate_variables H vars cs of
             Inl e \<Rightarrow> Inl e
           | Inr tail \<Rightarrow> Inr (c # tail))
      | Some (var_name, rest) \<Rightarrow>
          (case replace_var H vars var_name of
             Inl e \<Rightarrow> Inl e
           | Inr replacement \<Rightarrow>
               (case interpolate_variables H vars rest of
                  Inl e \<Rightarrow> Inl e
                | Inr tail \<Rightarrow> Inr (replacement @ tail))))"
  by pat_completeness auto
termination interpolate_variables
  by (relation "measure (\<lambda>(H, vars, s). length s)") (auto dest: var_ref_match_shorter)

section \<open>Interpreter state\<close>

text \<open>
  An entry of \<^verbatim>\<open>block_stack\<close> is the tuple of the indentation, the command type and the
  command data; the data is either empty or holds the one key \<^verbatim>\<open>html_tag\<close>, so it is
  modelled as an optional tag.
\<close>

datatype cmd_type =
  BPage | BSection | BContainer | BList | BCard | BCardBody | BCardFooter | BIf | BLoop

type_synonym frame = "nat \<times> cmd_type \<times> string option"

text \<open>
  The globals and the locals of \<^verbatim>\<open>execute_psu_script\<close> that live across lines.  The three
  stacks are Python lists that grow at the end; here the top of a stack is the head of
  the list.  \<open>warnings\<close> collects the lines that the non-fatal diagnostics print.
\<close>

record 'h interp =
  variables :: "'h store"
  html_output_buffer :: "string list"
  output_filename :: string
  html_tag_stack :: "string list"
  block_stack :: "frame list"
  skip_current_block :: bool
  if_conditions_met_stack :: "bool list"
  warnings :: "string list"

definition initial :: "'h interp" where
  "initial = \<lparr> variables = Map.empty, html_output_buffer = [], output_filename = ''index.html'',
               html_tag_stack = [], block_stack = [], skip_current_block = False,
               if_conditions_met_stack = [], warnings = [] \<rparr>"

definition get_html_indent :: "'h interp \<Rightarrow> string" where
  "get_html_indent st = replicate (4 * length (html_tag_stack st)) CHR '' ''"

definition append_html_line :: "string \<Rightarrow> 'h interp \<Rightarrow> 'h interp" where
  "append_html_line html_content st =
     st\<lparr>html_output_buffer := html_output_buffer st @ [get_html_indent st @ html_content]\<rparr>"

definition push_tag :: "string \<Rightarrow> 'h interp \<Rightarrow> 'h interp" where
  "push_tag tag st = st\<lparr>html_tag_stack := tag # html_tag_stack st\<rparr>"

text \<open>\<^verbatim>\<open>if html_tag_stack and html_tag_stack[-1] == tag: html_tag_stack.pop()\<close>\<close>

definition pop_tag_if :: "string \<Rightarrow> 'h interp \<Rightarrow> 'h interp" where
  "pop_tag_if tag st =
     (case html_tag_stack st of
        [] \<Rightarrow> st
      | t # ts \<Rightarrow> if t = tag then st\<lparr>html_tag_stack := ts\<rparr> else st)"

definition push_block :: "frame \<Rightarrow> 'h interp \<Rightarrow> 'h interp" where
  "push_block fr st = st\<lparr>block_stack := fr # block_stack st\<rparr>"

definition print_warning :: "string \<Rightarrow> 'h interp \<Rightarrow> 'h interp" where
  "print_warning msg st = st\<lparr>warnings := warnings st @ [msg]\<rparr>"

section \<open>Closing blocks\<close>

text \<open>
  How a run can stop without writing its output: the two header checks, a line on which
  no command is found, a \<^verbatim>\<open>ValueError\<close> or another exception inside the \<^verbatim>\<open>try\<close>
  statement (each reported with the line number, counted from 1, before
  \<^verbatim>\<open>sys.exit(1)\<close>), and an exception raised outside the \<^verbatim>\<open>try\<close> statement.
\<close>

datatype failure =
  Missing_psload
| Missing_psstart
| Malformed_line nat string
| Error_on_line nat string
| Unhandled_error nat py_exception
| Uncaught py_exception

text \<open>
  The bookkeeping for a popped \<^verbatim>\<open>if\<close> frame in the dedent loop: pop the condition stack
  and take the skip flag from the parent \<^verbatim>\<open>if\<close>, or clear it when none is left.  No
  other command type touches the skip flag here.
\<close>

definition close_conditional :: "cmd_type \<Rightarrow> 'h interp \<Rightarrow> failure + 'h interp" where
  "close_conditional closed_cmd_type st =
     (if closed_cmd_type = BIf then
        (case if_conditions_met_stack st of
           [] \<Rightarrow> Inl (Uncaught IndexError)
         | _ # rest \<Rightarrow>
             Inr (st\<lparr>if_conditions_met_stack := rest,
                     skip_current_block := (case rest of [] \<Rightarrow> False | parent # _ \<Rightarrow> \<not> parent)\<rparr>))
      else Inr st)"

text \<open>The closing tags of the dedent loop (\<^verbatim>\<open>Close corresponding HTML tags\<close>).\<close>

definition close_html_dedent :: "cmd_type \<Rightarrow> string option \<Rightarrow> 'h interp \<Rightarrow> failure + 'h interp" where
  "close_html_dedent closed_cmd_type closed_cmd_data st =
     (if closed_cmd_type = BPage then
        Inr (append_html_line ''</html>'' (append_html_line ''    </body>'' st))
      else if closed_cmd_type \<in> {BSection, BContainer, BList} then
        (case closed_cmd_data of
           None \<Rightarrow> Inl (Uncaught KeyError)
         | Some tag \<Rightarrow> Inr (pop_tag_if tag (append_html_line (''</'' @ tag @ ''>'') st)))
      else if closed_cmd_type = BCard then
        Inr (pop_tag_if ''div'' (append_html_line ''</div>'' st))
      else if closed_cmd_type \<in> {BCardBody, BCardFooter} then
        Inr (pop_tag_if ''div'' (append_html_line ''</div>'' st))
      else Inr st)"

text \<open>
  \<^verbatim>\<open>while block_stack and line_indent_spaces <= block_stack[-1][0]\<close>: the second argument
  is the block stack of the state, which every round pops.
\<close>

fun close_blocks :: "nat \<Rightarrow> frame list \<Rightarrow> 'h interp \<Rightarrow> failure + 'h interp" where
  "close_blocks line_indent_spaces [] st = Inr st"
| "close_blocks line_indent_spaces ((closed_indent, closed_cmd_type, closed_cmd_data) # frs) st =
     (if line_indent_spaces \<le> closed_indent then
        (case close_conditional closed_cmd_type (st\<lparr>block_stack := frs\<rparr>) of
           Inl e \<Rightarrow> Inl e
         | Inr st1 \<Rightarrow>
             (case close_html_dedent closed_cmd_type closed_cmd_data st1 of
                Inl e \<Rightarrow> Inl e
              | Inr st2 \<Rightarrow> close_blocks line_indent_spaces frs st2))
      else Inr st)"

text \<open>
  The final cleanup after the last line.  Its branch for \<^verbatim>\<open>page\<close> is \<^verbatim>\<open>pass\<close>: the two
  closing lines are commented out there.
\<close>

definition close_html_final :: "cmd_type \<Rightarrow> string option \<Rightarrow> 'h interp \<Rightarrow> failure + 'h interp" where
  "close_html_final closed_cmd_type closed_cmd_data st =
     (if closed_cmd_type = BPage then Inr st
      else if closed_cmd_type \<in> {BSection, BContainer, BList} then
        (case closed_cmd_data of
           None \<Rightarrow> Inl (Uncaught KeyError)
         | Some tag \<Rightarrow> Inr (pop_tag_if tag (append_html_line (''</'' @ tag @ ''>'') st)))
      else if closed_cmd_type = BCard then
        Inr (pop_tag_if ''div'' (append_html_line ''</div>'' st))
      else if closed_cmd_type \<in> {BCardBody, BCardFooter} then
        Inr (pop_tag_if ''div'' (append_html_line ''</div>'' st))
      else Inr st)"

fun final_cleanup :: "frame list \<Rightarrow> 'h interp \<Rightarrow> failure + 'h interp" where
  "final_cleanup [] st = Inr st"
| "final_cleanup ((closed_indent, closed_cmd_type, closed_cmd_data) # frs) st =
     (case close_html_final closed_cmd_type closed_cmd_data (st\<lparr>block_stack := frs\<rparr>) of
        Inl e \<Rightarrow> Inl e
      | Inr st1 \<Rightarrow> final_cleanup frs st1)"

section \<open>The patterns of the commands\<close>

text \<open>
  Each pattern is used with \<^verbatim>\<open>re.match\<close>, which matches at the start of the text only.
  The matchers below return the groups the handler reads.  \<open>quoted s\<close> is \<open>s\<close> between
  double quotes.
\<close>

definition quoted :: "string \<Rightarrow> string" where
  "quoted s = dquote # s @ [dquote]"

text \<open>\<^verbatim>\<open>"([^"]+)"\<close>: the text between the quotes, which is not empty, and the rest.\<close>

definition quoted_match :: "string \<Rightarrow> (string \<times> string) option" where
  "quoted_match s =
     (case s of
        [] \<Rightarrow> None
      | q # r \<Rightarrow>
          if q \<noteq> dquote then None
          else case dropWhile (\<lambda>c. c \<noteq> dquote) r of
                 [] \<Rightarrow> None
               | _ # rest \<Rightarrow>
                   if takeWhile (\<lambda>c. c \<noteq> dquote) r = [] then None
                   else Some (takeWhile (\<lambda>c. c \<noteq> dquote) r, rest))"

text \<open>
  The tail \<^verbatim>\<open>\s*(.*)\<close> of a pattern: all white space, then the group up to the first
  line break (the dot matches no line break).
\<close>

definition tail_group :: "string \<Rightarrow> string" where
  "tail_group r = takeWhile (\<lambda>c. c \<noteq> newline) (dropWhile isspace r)"

text \<open>\<^verbatim>\<open>(\w+)\s*(.*)\<close>, the command and its argument text.\<close>

definition command_match :: "string \<Rightarrow> (string \<times> string) option" where
  "command_match s =
     (if takeWhile isword s = [] then None
      else Some (takeWhile isword s, tail_group (dropWhile isword s)))"

text \<open>\<^verbatim>\<open>"([^"]+)"\s*(.*)\<close>, for page, section, paragraph, image, button and item.\<close>

definition quoted_tail_match :: "string \<Rightarrow> (string \<times> string) option" where
  "quoted_tail_match s =
     (case quoted_match s of
        None \<Rightarrow> None
      | Some (text_content, rest) \<Rightarrow> Some (text_content, tail_group rest))"

text \<open>\<^verbatim>\<open>"([^"]+)"\s*"([^"]+)"\s*(.*)\<close>, for link.\<close>

definition link_match :: "string \<Rightarrow> (string \<times> string \<times> string) option" where
  "link_match s =
     (case quoted_match s of
        None \<Rightarrow> None
      | Some (display_text, rest) \<Rightarrow>
          (case quoted_match (dropWhile isspace rest) of
             None \<Rightarrow> None
           | Some (href, rest2) \<Rightarrow> Some (display_text, href, tail_group rest2)))"

text \<open>\<^verbatim>\<open>level=(\d+)\s*"([^"]+)"\s*(.*)\<close>, for heading.\<close>

definition heading_match :: "string \<Rightarrow> (string \<times> string \<times> string) option" where
  "heading_match s =
     (if \<not> startswith s ''level='' then None
      else let r = drop 6 s
           in if takeWhile isdigit r = [] then None
              else case quoted_match (dropWhile isspace (dropWhile isdigit r)) of
                     None \<Rightarrow> None
                   | Some (text_content, rest) \<Rightarrow>
                       Some (takeWhile isdigit r, text_content, tail_group rest))"

text \<open>\<^verbatim>\<open>type="(ordered|unordered)"\s*(.*)\<close>, for list.\<close>

definition list_match :: "string \<Rightarrow> (string \<times> string) option" where
  "list_match s =
     (if startswith s (''type='' @ quoted ''ordered'') then
        Some (''ordered'', tail_group (drop 14 s))
      else if startswith s (''type='' @ quoted ''unordered'') then
        Some (''unordered'', tail_group (drop 16 s))
      else None)"

text \<open>\<^verbatim>\<open>title="([^"]+)"\s*(.*)\<close>, for card.\<close>

definition card_match :: "string \<Rightarrow> (string \<times> string) option" where
  "card_match s =
     (if \<not> startswith s ''title='' then None else quoted_tail_match (drop 6 s))"

text \<open>
  \<^verbatim>\<open>(\w+)\s*=\s*(.+);\<close>, for set.  The group \<^verbatim>\<open>(.+)\<close> is greedy: it ends before the
  last semicolon of the line, and it is not empty.  The white space after \<^verbatim>\<open>=\<close> is
  greedy too, and the matcher gives characters back one at a time while the rest does
  not match.
\<close>

definition dot_plus_semi :: "string \<Rightarrow> string option" where
  "dot_plus_semi r =
     (let ln = takeWhile (\<lambda>c. c \<noteq> newline) r;
          p = length ln - 1 - length (takeWhile (\<lambda>c. c \<noteq> CHR '';'') (rev ln))
      in if CHR '';'' \<in> set ln \<and> 1 \<le> p then Some (take p ln) else None)"

fun backtrack_space :: "nat \<Rightarrow> string \<Rightarrow> string option" where
  "backtrack_space 0 r = dot_plus_semi r"
| "backtrack_space (Suc k) r =
     (case dot_plus_semi (drop (Suc k) r) of
        Some g \<Rightarrow> Some g
      | None \<Rightarrow> backtrack_space k r)"

definition set_match :: "string \<Rightarrow> (string \<times> string) option" where
  "set_match s =
     (if takeWhile isword s = [] then None
      else case dropWhile isspace (dropWhile isword s) of
             [] \<Rightarrow> None
           | e # r \<Rightarrow>
               if e \<noteq> CHR ''='' then None
               else case backtrack_space (length (takeWhile isspace r)) r of
                      None \<Rightarrow> None
                    | Some g \<Rightarrow> Some (takeWhile isword s, g))"

text \<open>
  \<^verbatim>\<open>^-?\d+(\.\d+)?$\<close> on the value of a set command.  The value has been stripped, so
  it ends with no line break and \<^verbatim>\<open>$\<close> is the end of the text.
\<close>

definition number_match :: "string \<Rightarrow> bool" where
  "number_match s \<longleftrightarrow>
     (let r = (case s of [] \<Rightarrow> [] | c # cs \<Rightarrow> if c = CHR ''-'' then cs else s)
      in takeWhile isdigit r \<noteq> [] \<and>
         (case dropWhile isdigit r of
            [] \<Rightarrow> True
          | d # r2 \<Rightarrow> d = CHR ''.'' \<and> r2 \<noteq> [] \<and> list_all isdigit r2))"

text \<open>\<^verbatim>\<open>s.replace(old, new)\<close>.\<close>

function str_replace :: "string \<Rightarrow> string \<Rightarrow> string \<Rightarrow> string" where
  "str_replace old new [] = (if old = [] then new else [])"
| "str_replace old new (c # cs) =
     (if old = [] then new @ c # str_replace old new cs
      else if startswith (c # cs) old then new @ str_replace old new (drop (length old) (c # cs))
      else c # str_replace old new cs)"
  by pat_completeness auto
termination str_replace
  by (relation "measure (\<lambda>(old, new, s). length s)") auto

section \<open>The command handlers\<close>

text \<open>
  A handler is the branch of the \<^verbatim>\<open>if\<close>/\<^verbatim>\<open>elif\<close> chain inside the \<^verbatim>\<open>try\<close> statement.
  It returns the state it leaves, or the exception it raises.  The calls that can raise
  are made in the order of the source.
\<close>

text \<open>
  \<^verbatim>\<open>' '.join([f'{k}="{interpolate_variables(v)}"' for k, v in attrs.items()])\<close>
\<close>

fun attr_items :: "'h host \<Rightarrow> 'h store \<Rightarrow> attrs \<Rightarrow> py_exception + string list" where
  "attr_items H vars [] = Inr []"
| "attr_items H vars ((k, v) # kvs) =
     (case interpolate_variables H vars v of
        Inl e \<Rightarrow> Inl e
      | Inr value \<Rightarrow>
          (case attr_items H vars kvs of
             Inl e \<Rightarrow> Inl e
           | Inr items \<Rightarrow> Inr ((k @ ''='' @ quoted value) # items)))"

definition attr_str_html :: "'h host \<Rightarrow> 'h store \<Rightarrow> attrs \<Rightarrow> py_exception + string" where
  "attr_str_html H vars attrs =
     (case attr_items H vars attrs of
        Inl e \<Rightarrow> Inl e
      | Inr items \<Rightarrow> Inr (join '' '' items))"

definition assign :: "string \<Rightarrow> 'h pyval \<Rightarrow> 'h interp \<Rightarrow> 'h interp" where
  "assign var_name v st = st\<lparr>variables := (variables st)(var_name \<mapsto> v)\<rparr>"

definition cmd_output_html :: "string \<Rightarrow> 'h interp \<Rightarrow> py_exception + 'h interp" where
  "cmd_output_html arg_string st =
     (case quoted_match arg_string of
        Some (name, rest) \<Rightarrow> Inr (st\<lparr>output_filename := name\<rparr>)
      | None \<Rightarrow> Inl (ValueError ''`output_html` expects a quoted filename.''))"

definition cmd_set :: "'h host \<Rightarrow> string \<Rightarrow> 'h interp \<Rightarrow> py_exception + 'h interp" where
  "cmd_set H arg_string st =
     (case set_match arg_string of
        None \<Rightarrow> Inl (ValueError ''Invalid `set` command syntax.'')
      | Some (var_name, g) \<Rightarrow>
          (let value_expr = strip g
           in if startswith value_expr [dquote] \<and> endswith value_expr [dquote] then
                Inr (assign var_name (PStr (strip_char dquote value_expr)) st)
              else if lower value_expr \<in> {''true'', ''false''} then
                Inr (assign var_name (PBool (lower value_expr = ''true'')) st)
              else if number_match value_expr then
                (if CHR ''.'' \<in> set value_expr then
                   Inr (assign var_name (PHost (py_float H value_expr)) st)
                 else
                   and_then (py_int value_expr) (\<lambda>n. Inr (assign var_name (PInt n) st)))
              else
                (case py_eval H value_expr (variables st) of
                   (Returned evaluated_value, vars) \<Rightarrow>
                     Inr (assign var_name evaluated_value (st\<lparr>variables := vars\<rparr>))
                 | (Raised exc, vars) \<Rightarrow>
                     if exc \<in> {NameError, SyntaxError, TypeError} then
                       Inr (assign var_name PNone
                             (print_warning
                               (''Warning: Could not evaluate expression for '' @ [CHR 0x27] @
                                var_name @ [CHR 0x27] @ '': '' @ [CHR 0x27] @ value_expr @ [CHR 0x27])
                               (st\<lparr>variables := vars\<rparr>)))
                     else Inl exc)))"

text \<open>An optional line of the page head: present when the attribute is.\<close>

definition head_link :: "attrs \<Rightarrow> string \<Rightarrow> string \<Rightarrow> string \<Rightarrow> 'h interp \<Rightarrow> 'h interp" where
  "head_link page_attrs key opening closing st =
     (case map_of page_attrs key of
        None \<Rightarrow> st
      | Some v \<Rightarrow> append_html_line (opening @ quoted v @ closing) st)"

definition cmd_page :: "'h host \<Rightarrow> nat \<Rightarrow> string \<Rightarrow> 'h interp \<Rightarrow> py_exception + 'h interp" where
  "cmd_page H line_indent_spaces arg_string st =
     (case quoted_tail_match arg_string of
        None \<Rightarrow> Inl (ValueError ''Invalid `page` command syntax.'')
      | Some (page_title, g) \<Rightarrow>
          and_then (interpolate_variables H (variables st) page_title) (\<lambda>title.
            (let page_attrs = parse_attributes (strip g);
                 st1 = append_html_line ''<!DOCTYPE html>'' st;
                 st2 = push_tag ''html'' (append_html_line ''<html>'' st1);
                 st3 = push_tag ''head'' (append_html_line ''<head>'' st2);
                 st4 = append_html_line (''    <title>'' @ title @ ''</title>'') st3;
                 st5 = head_link page_attrs ''stylesheet''
                         (''    <link rel='' @ quoted ''stylesheet'' @ '' href='') ''>'' st4;
                 st6 = head_link page_attrs ''script'' ''    <script src='' ''></script>'' st5;
                 st7 = head_link page_attrs ''favicon''
                         (''    <link rel='' @ quoted ''icon'' @ '' href='') ''>'' st6;
                 st8 = append_html_line ''</head>'' st7;
                 st9 = st8\<lparr>html_tag_stack := tl (html_tag_stack st8)\<rparr>;
                 st10 = push_tag ''body'' (append_html_line ''<body>'' st9)
             in Inr (push_block (line_indent_spaces, BPage, None) st10))))"

definition cmd_meta_info :: "'h host \<Rightarrow> string \<Rightarrow> 'h interp \<Rightarrow> py_exception + 'h interp" where
  "cmd_meta_info H arg_string st =
     and_then (attr_str_html H (variables st) (parse_attributes arg_string)) (\<lambda>attr_str.
       Inr (append_html_line (''<meta '' @ attr_str @ ''>'') st))"

definition cmd_section :: "'h host \<Rightarrow> nat \<Rightarrow> string \<Rightarrow> 'h interp \<Rightarrow> py_exception + 'h interp" where
  "cmd_section H line_indent_spaces arg_string st =
     (case quoted_tail_match arg_string of
        None \<Rightarrow> Inl (ValueError ''Invalid `section` command syntax.'')
      | Some (section_id, g) \<Rightarrow>
          (let attrs = parse_attributes (strip g);
               extra_class =
                 (case map_of attrs ''full_width'' of
                    None \<Rightarrow> []
                  | Some v \<Rightarrow> if lower v = ''true'' then '' full-width-section'' else []);
               existing_class = (case map_of attrs ''class'' of None \<Rightarrow> [] | Some v \<Rightarrow> v);
               final_class =
                 (if existing_class \<noteq> [] \<or> extra_class \<noteq> []
                  then strip (''class='' @ quoted (existing_class @ extra_class)) else []);
               filtered_attrs = filter (\<lambda>(k, v). k \<noteq> ''full_width'') attrs
           in and_then (attr_str_html H (variables st) filtered_attrs) (\<lambda>attr_str.
              and_then (interpolate_variables H (variables st) section_id) (\<lambda>id_text.
                Inr (push_block (line_indent_spaces, BSection, Some ''section'')
                      (push_tag ''section''
                        (append_html_line
                          (strip (''<section id='' @ quoted id_text @ '' '' @ final_class @
                                  '' '' @ attr_str @ ''>'')) st)))))))"

definition cmd_container :: "'h host \<Rightarrow> nat \<Rightarrow> string \<Rightarrow> 'h interp \<Rightarrow> py_exception + 'h interp" where
  "cmd_container H line_indent_spaces arg_string st =
     and_then (attr_str_html H (variables st) (parse_attributes arg_string)) (\<lambda>attr_str.
       Inr (push_block (line_indent_spaces, BContainer, Some ''div'')
             (push_tag ''div'' (append_html_line (''<div '' @ attr_str @ ''>'') st))))"

text \<open>
  The heading handler converts the level first, then joins the attributes, then tests
  the level, then interpolates the text.
\<close>

definition cmd_heading :: "'h host \<Rightarrow> string \<Rightarrow> 'h interp \<Rightarrow> py_exception + 'h interp" where
  "cmd_heading H arg_string st =
     (case heading_match arg_string of
        None \<Rightarrow> Inl (ValueError ''Invalid `heading` command syntax.'')
      | Some (digits, text_content, g) \<Rightarrow>
          and_then (py_int digits) (\<lambda>level.
          and_then (attr_str_html H (variables st) (parse_attributes (strip g))) (\<lambda>attr_str.
            if \<not> (1 \<le> level \<and> level \<le> 6) then
              Inl (ValueError ''Heading level must be between 1 and 6.'')
            else
              and_then (interpolate_variables H (variables st) text_content) (\<lambda>content.
                Inr (append_html_line
                      (''<h'' @ str_int level @ '' '' @ attr_str @ ''>'' @ content @
                       ''</h'' @ str_int level @ ''>'') st)))))"

definition cmd_paragraph :: "'h host \<Rightarrow> string \<Rightarrow> 'h interp \<Rightarrow> py_exception + 'h interp" where
  "cmd_paragraph H arg_string st =
     (case quoted_tail_match arg_string of
        None \<Rightarrow> Inl (ValueError ''Invalid `paragraph` command syntax.'')
      | Some (text_content, g) \<Rightarrow>
          and_then (attr_str_html H (variables st) (parse_attributes (strip g))) (\<lambda>attr_str.
          and_then (interpolate_variables H (variables st) text_content) (\<lambda>content.
            Inr (append_html_line (''<p '' @ attr_str @ ''>'' @ content @ ''</p>'') st))))"

definition cmd_image :: "'h host \<Rightarrow> string \<Rightarrow> 'h interp \<Rightarrow> py_exception + 'h interp" where
  "cmd_image H arg_string st =
     (case quoted_tail_match arg_string of
        None \<Rightarrow> Inl (ValueError ''Invalid `image` command syntax.'')
      | Some (src, g) \<Rightarrow>
          and_then (attr_str_html H (variables st) (parse_attributes (strip g))) (\<lambda>attr_str.
          and_then (interpolate_variables H (variables st) src) (\<lambda>src_text.
            Inr (append_html_line
                  (''<img src='' @ quoted src_text @ '' '' @ attr_str @ ''>'') st))))"

definition cmd_button :: "'h host \<Rightarrow> string \<Rightarrow> 'h interp \<Rightarrow> py_exception + 'h interp" where
  "cmd_button H arg_string st =
     (case quoted_tail_match arg_string of
        None \<Rightarrow> Inl (ValueError ''Invalid `button` command syntax.'')
      | Some (text_content, g) \<Rightarrow>
          and_then (attr_str_html H (variables st) (parse_attributes (strip g))) (\<lambda>attr_str.
          and_then (interpolate_variables H (variables st) text_content) (\<lambda>content.
            Inr (append_html_line
                  (''<button '' @ attr_str @ ''>'' @ content @ ''</button>'') st))))"

definition cmd_link :: "'h host \<Rightarrow> string \<Rightarrow> 'h interp \<Rightarrow> py_exception + 'h interp" where
  "cmd_link H arg_string st =
     (case link_match arg_string of
        None \<Rightarrow> Inl (ValueError ''Invalid `link` command syntax.'')
      | Some (display_text, href, g) \<Rightarrow>
          and_then (attr_str_html H (variables st) (parse_attributes (strip g))) (\<lambda>attr_str.
          and_then (interpolate_variables H (variables st) href) (\<lambda>href_text.
          and_then (interpolate_variables H (variables st) display_text) (\<lambda>content.
            Inr (append_html_line
                  (''<a href='' @ quoted href_text @ '' '' @ attr_str @ ''>'' @ content @
                   ''</a>'') st)))))"

definition cmd_list :: "'h host \<Rightarrow> nat \<Rightarrow> string \<Rightarrow> 'h interp \<Rightarrow> py_exception + 'h interp" where
  "cmd_list H line_indent_spaces arg_string st =
     (case list_match arg_string of
        None \<Rightarrow> Inl (ValueError ''Invalid `list` command syntax.'')
      | Some (list_type, g) \<Rightarrow>
          (let html_tag = (if list_type = ''ordered'' then ''ol'' else ''ul'')
           in and_then (attr_str_html H (variables st) (parse_attributes (strip g))) (\<lambda>attr_str.
                Inr (push_block (line_indent_spaces, BList, Some html_tag)
                      (push_tag html_tag
                        (append_html_line (''<'' @ html_tag @ '' '' @ attr_str @ ''>'') st))))))"

text \<open>\<^verbatim>\<open>not block_stack or block_stack[-1][1] not in [kind]\<close>\<close>

definition not_directly_in :: "cmd_type \<Rightarrow> 'h interp \<Rightarrow> bool" where
  "not_directly_in kind st =
     (case block_stack st of
        [] \<Rightarrow> True
      | (top_indent, top_cmd_type, top_data) # frs \<Rightarrow> top_cmd_type \<noteq> kind)"

definition cmd_item :: "'h host \<Rightarrow> string \<Rightarrow> 'h interp \<Rightarrow> py_exception + 'h interp" where
  "cmd_item H arg_string st =
     (if not_directly_in BList st then
        Inl (ValueError ''`item` command must be directly inside a `list` block.'')
      else case quoted_tail_match arg_string of
             None \<Rightarrow> Inl (ValueError ''Invalid `item` command syntax.'')
           | Some (text_content, g) \<Rightarrow>
               and_then (attr_str_html H (variables st) (parse_attributes (strip g))) (\<lambda>attr_str.
               and_then (interpolate_variables H (variables st) text_content) (\<lambda>content.
                 Inr (append_html_line (''<li '' @ attr_str @ ''>'' @ content @ ''</li>'') st))))"

definition cmd_card :: "'h host \<Rightarrow> nat \<Rightarrow> string \<Rightarrow> 'h interp \<Rightarrow> py_exception + 'h interp" where
  "cmd_card H line_indent_spaces arg_string st =
     (case card_match arg_string of
        None \<Rightarrow> Inl (ValueError ''Invalid `card` command syntax.'')
      | Some (card_title_text, g) \<Rightarrow>
          (let attrs = parse_attributes (strip g);
               card_class = (case map_of attrs ''class'' of None \<Rightarrow> [] | Some v \<Rightarrow> v)
           in and_then (attr_str_html H (variables st) attrs) (\<lambda>attr_str.
              and_then (interpolate_variables H (variables st) card_title_text) (\<lambda>title.
                (let st1 = append_html_line
                             (strip (''<div class='' @ quoted (''psu-card '' @ card_class) @ '' '' @
                                     str_replace (''class='' @ quoted card_class) [] attr_str @
                                     ''>'')) st;
                     st2 = append_html_line
                             (''    <div class='' @ quoted ''psu-card-header'' @ ''>'') st1;
                     st3 = append_html_line (''        <h2>'' @ title @ ''</h2>'') st2;
                     st4 = append_html_line ''    </div>'' st3
                 in Inr (push_block (line_indent_spaces, BCard, None) (push_tag ''div'' st4)))))))"

definition cmd_card_body :: "nat \<Rightarrow> 'h interp \<Rightarrow> py_exception + 'h interp" where
  "cmd_card_body line_indent_spaces st =
     (if not_directly_in BCard st then
        Inl (ValueError ''`card_body` must be directly inside a `card` block.'')
      else Inr (push_block (line_indent_spaces, BCardBody, None)
                 (push_tag ''div''
                   (append_html_line (''<div class='' @ quoted ''psu-card-body'' @ ''>'') st))))"

definition cmd_card_footer :: "nat \<Rightarrow> 'h interp \<Rightarrow> py_exception + 'h interp" where
  "cmd_card_footer line_indent_spaces st =
     (if not_directly_in BCard st then
        Inl (ValueError ''`card_footer` must be directly inside a `card` block.'')
      else Inr (push_block (line_indent_spaces, BCardFooter, None)
                 (push_tag ''div''
                   (append_html_line (''<div class='' @ quoted ''psu-card-footer'' @ ''>'') st))))"

subsection \<open>Conditions, else and loop\<close>

text \<open>The right operand of a comparison, as the \<^verbatim>\<open>if\<close> handler reads it.\<close>

definition right_val :: "string \<Rightarrow> string" where
  "right_val right =
     (if startswith right [dquote] \<and> endswith right [dquote]
      then lower (strip_char dquote right) else lower right)"

text \<open>\<^verbatim>\<open>str(variables.get(left)).lower()\<close>: a missing name reads as \<^verbatim>\<open>None\<close>.\<close>

definition left_text :: "'h host \<Rightarrow> 'h store \<Rightarrow> string \<Rightarrow> py_exception + string" where
  "left_text H vars left =
     and_then (str_of H (case vars left of None \<Rightarrow> PNone | Some v \<Rightarrow> v)) (\<lambda>s. Inr (lower s))"

text \<open>
  The value \<^verbatim>\<open>condition_result\<close> of the \<^verbatim>\<open>if\<close> handler.  The third test compares the
  expression itself with the two lower-case words; the last branch is
  \<^verbatim>\<open>bool(variables.get(condition_expr, False))\<close>.
\<close>

definition if_condition_result :: "'h host \<Rightarrow> 'h store \<Rightarrow> string \<Rightarrow> py_exception + bool" where
  "if_condition_result H vars condition_expr =
     (if contains condition_expr ''=='' then
        (case split1 condition_expr ''=='' of
           (l, r) \<Rightarrow>
             and_then (left_text H vars (strip l)) (\<lambda>left_val. Inr (left_val = right_val (strip r))))
      else if contains condition_expr ''!='' then
        (case split1 condition_expr ''!='' of
           (l, r) \<Rightarrow>
             and_then (left_text H vars (strip l)) (\<lambda>left_val. Inr (left_val \<noteq> right_val (strip r))))
      else if condition_expr \<in> {''true'', ''false''} then
        Inr (lower condition_expr = ''true'')
      else
        (case vars condition_expr of
           None \<Rightarrow> Inr False
         | Some v \<Rightarrow> bool_of H v))"

text \<open>
  \<^verbatim>\<open>not result or any(not x for x in if_conditions_met_stack[:-1])\<close>, where the stack
  already holds \<open>result\<close> on top of \<open>parents\<close>.
\<close>

definition skip_for :: "bool \<Rightarrow> bool list \<Rightarrow> bool" where
  "skip_for result parents = (if result then list_ex (\<lambda>x. \<not> x) parents else True)"

definition cmd_if :: "'h host \<Rightarrow> nat \<Rightarrow> string \<Rightarrow> 'h interp \<Rightarrow> py_exception + 'h interp" where
  "cmd_if H line_indent_spaces condition_expr st =
     and_then (if_condition_result H (variables st) condition_expr) (\<lambda>condition_result.
       Inr (push_block (line_indent_spaces, BIf, None)
             (st\<lparr>if_conditions_met_stack := condition_result # if_conditions_met_stack st,
                 skip_current_block := skip_for condition_result (if_conditions_met_stack st)\<rparr>)))"

text \<open>
  The \<^verbatim>\<open>else\<close> handler: the top of the block stack must be an \<^verbatim>\<open>if\<close> frame whose
  indentation equals the indentation of the line.
\<close>

definition else_error :: py_exception where
  "else_error =
     ValueError ''`else` command must immediately follow an `if` block at the same indentation level.''"

definition cmd_else :: "nat \<Rightarrow> 'h interp \<Rightarrow> py_exception + 'h interp" where
  "cmd_else line_indent_spaces st =
     (case block_stack st of
        [] \<Rightarrow> Inl else_error
      | (top_indent, top_cmd_type, top_data) # frs \<Rightarrow>
          if top_cmd_type \<noteq> BIf then Inl else_error
          else if line_indent_spaces \<noteq> top_indent then Inl else_error
          else case if_conditions_met_stack st of
                 [] \<Rightarrow> Inl IndexError
               | prev_if_result # parents \<Rightarrow>
                   (let current_else_result = (\<not> prev_if_result)
                    in Inr (st\<lparr>if_conditions_met_stack := current_else_result # parents,
                               skip_current_block := skip_for current_else_result parents\<rparr>)))"

definition cmd_loop :: "nat \<Rightarrow> nat \<Rightarrow> 'h interp \<Rightarrow> py_exception + 'h interp" where
  "cmd_loop current_line_index line_indent_spaces st =
     (let st1 = print_warning
                  (''Warning: `loop` command on line '' @ str_nat (current_line_index + 1) @
                   '' is a placeholder.'') st;
          st2 = print_warning
                  ''       Full `loop` functionality requires an AST-based interpreter.'' st1
      in Inr ((push_block (line_indent_spaces, BLoop, None) st2)\<lparr>skip_current_block := True\<rparr>))"

definition cmd_unknown :: "nat \<Rightarrow> string \<Rightarrow> 'h interp \<Rightarrow> py_exception + 'h interp" where
  "cmd_unknown current_line_index trimmed_line st =
     Inr (print_warning
           (''Warning: Unknown command or malformed syntax on line '' @
            str_nat (current_line_index + 1) @ '': '' @ [CHR 0x27] @ trimmed_line @ [CHR 0x27]) st)"

section \<open>The main loop\<close>

text \<open>The chain of tests on \<^verbatim>\<open>command\<close>, in the order of the source.\<close>

definition execute_command ::
  "'h host \<Rightarrow> nat \<Rightarrow> nat \<Rightarrow> string \<Rightarrow> string \<Rightarrow> string \<Rightarrow> 'h interp \<Rightarrow> py_exception + 'h interp" where
  "execute_command H current_line_index line_indent_spaces trimmed_line command arg_string st =
     (if command = ''output_html'' then cmd_output_html arg_string st
      else if command = ''set'' then cmd_set H arg_string st
      else if command = ''page'' then cmd_page H line_indent_spaces arg_string st
      else if command = ''meta_info'' then cmd_meta_info H arg_string st
      else if command = ''section'' then cmd_section H line_indent_spaces arg_string st
      else if command = ''container'' then cmd_container H line_indent_spaces arg_string st
      else if command = ''heading'' then cmd_heading H arg_string st
      else if command = ''paragraph'' then cmd_paragraph H arg_string st
      else if command = ''image'' then cmd_image H arg_string st
      else if command = ''button'' then cmd_button H arg_string st
      else if command = ''link'' then cmd_link H arg_string st
      else if command = ''list'' then cmd_list H line_indent_spaces arg_string st
      else if command = ''item'' then cmd_item H arg_string st
      else if command = ''card'' then cmd_card H line_indent_spaces arg_string st
      else if command = ''card_body'' then cmd_card_body line_indent_spaces st
      else if command = ''card_footer'' then cmd_card_footer line_indent_spaces st
      else if command = ''if'' then cmd_if H line_indent_spaces arg_string st
      else if command = ''else'' then cmd_else line_indent_spaces st
      else if command = ''loop'' then cmd_loop current_line_index line_indent_spaces st
      else cmd_unknown current_line_index trimmed_line st)"

text \<open>
  The two \<^verbatim>\<open>except\<close> clauses: a \<^verbatim>\<open>ValueError\<close> is reported with its message, any other
  exception as unhandled; both with the number of the line, counted from 1, and both
  end the process.
\<close>

definition report :: "nat \<Rightarrow> py_exception \<Rightarrow> failure" where
  "report current_line_index exc =
     (case exc of
        ValueError msg \<Rightarrow> Error_on_line (current_line_index + 1) msg
      | _ \<Rightarrow> Unhandled_error (current_line_index + 1) exc)"

text \<open>
  \<^verbatim>\<open>arg_string\<close>: the second group stripped, and when it ends with a colon, without its
  trailing colons and stripped again.
\<close>

definition arg_string_of :: "string \<Rightarrow> string" where
  "arg_string_of g =
     (if endswith (strip g) '':'' then strip (rstrip_char CHR '':'' (strip g)) else strip g)"

text \<open>
  One round of the \<^verbatim>\<open>while\<close> loop over the lines: the comment and blank test, then
  the dedent loop, then the skip test, then the command.
\<close>

definition process_line :: "'h host \<Rightarrow> nat \<Rightarrow> string \<Rightarrow> 'h interp \<Rightarrow> failure + 'h interp" where
  "process_line H current_line_index line st =
     (let trimmed_line = strip line;
          line_indent_spaces = length line - length (lstrip line)
      in if startswith trimmed_line ''..'' \<or> trimmed_line = [] then Inr st
         else case close_blocks line_indent_spaces (block_stack st) st of
                Inl e \<Rightarrow> Inl e
              | Inr st1 \<Rightarrow>
                  if skip_current_block st1 then Inr st1
                  else case command_match trimmed_line of
                         None \<Rightarrow> Inl (Malformed_line (current_line_index + 1) trimmed_line)
                       | Some (command, g) \<Rightarrow>
                           (case execute_command H current_line_index line_indent_spaces
                                   trimmed_line command (arg_string_of g) st1 of
                              Inl exc \<Rightarrow> Inl (report current_line_index exc)
                            | Inr st2 \<Rightarrow> Inr st2))"

fun run_lines :: "'h host \<Rightarrow> nat \<Rightarrow> string list \<Rightarrow> 'h interp \<Rightarrow> failure + 'h interp" where
  "run_lines H current_line_index [] st = Inr st"
| "run_lines H current_line_index (line # rest) st =
     (case process_line H current_line_index line st of
        Inl e \<Rightarrow> Inl e
      | Inr st1 \<Rightarrow> run_lines H (Suc current_line_index) rest st1)"

text \<open>
  What a run does in the end: it exits with status 1 after a failure, or it writes the
  joined buffer to the output file.  The argument \<open>lines\<close> is what \<^verbatim>\<open>readlines\<close>
  returned; reading the script and writing the file are outside the model.
\<close>

datatype run_result = Exited failure | Wrote_file string string

definition execute_psu_script :: "'h host \<Rightarrow> string list \<Rightarrow> run_result" where
  "execute_psu_script H lines =
     (if lines = [] \<or> strip (hd lines) \<noteq> ''psload'' then Exited Missing_psload
      else if length lines < 2 \<or> strip (hd (tl lines)) \<noteq> ''psstart'' then Exited Missing_psstart
      else case run_lines H 2 (drop 2 lines) initial of
             Inl e \<Rightarrow> Exited e
           | Inr st \<Rightarrow>
               (case final_cleanup (block_stack st) st of
                  Inl e \<Rightarrow> Exited e
                | Inr st1 \<Rightarrow>
                    Wrote_file (output_filename st1) (join [newline] (html_output_buffer st1))))"

text \<open>
  A host for the examples: its \<^verbatim>\<open>eval\<close> raises \<^verbatim>\<open>NameError\<close> and leaves the store as it
  is, which is what Python does with an expression that reads a name that is not bound.
  The examples evaluate no other expression and make no float.
\<close>

definition example_host :: "unit host" where
  "example_host =
     \<lparr> py_eval = (\<lambda>expr vars. (Raised NameError, vars)),
       py_float = (\<lambda>lit. ()),
       py_str = (\<lambda>h. Inr ''0.0''),
       py_bool = (\<lambda>h. Inr False) \<rparr>"

text \<open>The state of an example run after the line \<^verbatim>\<open>container:\<close> at the start of a script.\<close>

definition in_container :: "unit interp" where
  "in_container =
     initial\<lparr>html_output_buffer := [''<div >''], html_tag_stack := [''div''],
             block_stack := [(0, BContainer, Some ''div'')]\<rparr>"

section \<open>The dedent loop and the run\<close>

lemma append_html_line_block_stack [simp]:
  "block_stack (append_html_line l st) = block_stack st"
  by (simp add: append_html_line_def)

lemma pop_tag_if_block_stack [simp]:
  "block_stack (pop_tag_if t st) = block_stack st"
  by (simp add: pop_tag_if_def split: list.splits)

lemma close_conditional_block_stack:
  "close_conditional k st = Inr st1 \<Longrightarrow> block_stack st1 = block_stack st"
  by (auto simp: close_conditional_def split: if_splits list.splits)

lemma close_html_dedent_block_stack:
  "close_html_dedent k d st = Inr st1 \<Longrightarrow> block_stack st1 = block_stack st"
  by (auto simp: close_html_dedent_def split: if_splits option.splits)

text \<open>
  When the dedent loop for a line is over, every frame that is left was opened at a
  smaller indentation than the line's.
\<close>

lemma close_blocks_top:
  "close_blocks n frs st = Inr st1 \<Longrightarrow> block_stack st = frs \<Longrightarrow>
     (case block_stack st1 of [] \<Rightarrow> True | (top_indent, top_rest) # rest \<Rightarrow> top_indent < n)"
proof (induction frs arbitrary: st)
  case Nil
  then show ?case by simp
next
  case (Cons fr frs)
  obtain ci ck cd where fr: "fr = (ci, ck, cd)" by (cases fr)
  show ?case
  proof (cases "n \<le> ci")
    case True
    with Cons.prems fr obtain sa sb where
      a: "close_conditional ck (st\<lparr>block_stack := frs\<rparr>) = Inr sa" and
      b: "close_html_dedent ck cd sa = Inr sb" and
      c: "close_blocks n frs sb = Inr st1"
      by (auto split: sum.splits)
    have "block_stack sb = frs"
      using close_conditional_block_stack [OF a] close_html_dedent_block_stack [OF b] by simp
    with c show ?thesis by (rule Cons.IH)
  next
    case False
    with Cons.prems fr show ?thesis by auto
  qed
qed

text \<open>A line on which a command is found is neither blank nor a comment.\<close>

lemma command_match_not_comment:
  assumes "command_match s = Some (c, g)"
  shows "s \<noteq> []" and "\<not> startswith s ''..''"
proof -
  from assms have tw: "takeWhile isword s \<noteq> []"
    by (auto simp: command_match_def split: if_splits)
  then show "s \<noteq> []" by auto
  then obtain x xs where s: "s = x # xs" by (cases s) auto
  with tw have "isword x" by (auto split: if_splits)
  then have "x \<noteq> CHR ''.''" by (auto simp: isword_def)
  with s show "\<not> startswith s ''..''" by (auto simp: startswith_def)
qed

text \<open>The lines before a line are run first, and a failure among them ends the run.\<close>

lemma run_lines_append:
  "run_lines H i (pre @ rest) st =
     (case run_lines H i pre st of
        Inl e \<Rightarrow> Inl e
      | Inr st1 \<Rightarrow> run_lines H (i + length pre) rest st1)"
  by (induction pre arbitrary: i st) (auto split: sum.splits)

section \<open>Else after if\<close>

text \<open>
  The dedent loop runs before the command of a line.  A frame opened at the
  indentation of the line has been popped by then, so the test of the \<^verbatim>\<open>else\<close> handler
  (an \<^verbatim>\<open>if\<close> frame on top, opened at the indentation of the line) cannot hold.
\<close>

lemma else_after_dedent_raises:
  assumes "close_blocks n (block_stack st) st = Inr st1"
  shows "cmd_else n st1 = Inl else_error"
  using close_blocks_top [OF assms refl]
  by (auto simp: cmd_else_def split: list.splits)

text \<open>
  So a line with the command \<^verbatim>\<open>else\<close> ends the run, unless the line is skipped.
\<close>

lemma else_line_never_accepted:
  assumes "command_match (strip line) = Some (''else'', g)"
  shows "(\<exists>e. process_line H i line st = Inl e) \<or>
         (\<exists>st1. process_line H i line st = Inr st1 \<and> skip_current_block st1)"
proof (cases "close_blocks (length line - length (lstrip line)) (block_stack st) st")
  case (Inl e)
  then show ?thesis
    using command_match_not_comment [OF assms]
    by (simp add: process_line_def Let_def)
next
  case (Inr st1)
  then show ?thesis
    using assms command_match_not_comment [OF assms] else_after_dedent_raises [OF Inr]
    by (simp add: process_line_def Let_def execute_command_def)
qed

text \<open>
  C1.  The claim: an \<^verbatim>\<open>else:\<close> line at the indentation of its \<^verbatim>\<open>if cond:\<close> is accepted,
  and exactly one of the two bodies emits its lines.  The code does not do that.  On the
  script
  \<^verbatim>\<open>psload / psstart / if true: /     paragraph "a" / else: /     paragraph "b"\<close>
  the run ends at line 5 with the error of the \<^verbatim>\<open>else\<close> handler and writes no file.
\<close>

theorem else_after_if_aborts_run:
  "execute_psu_script H
     [''psload'', ''psstart'',
      ''if true:'',
      ''    paragraph '' @ quoted ''a'',
      ''else:'',
      ''    paragraph '' @ quoted ''b'']
   = Exited (Error_on_line 5
       ''`else` command must immediately follow an `if` block at the same indentation level.'')"
  by code_simp

section \<open>Closing tags\<close>

text \<open>
  A page frame that a later line closes gets its two closing lines from the dedent loop.
\<close>

lemma page_closed_on_dedent:
  "execute_psu_script H
     [''psload'', ''psstart'',
      ''page '' @ quoted ''T'' @ '':'',
      ''    paragraph '' @ quoted ''x'',
      ''meta_info'']
   = Wrote_file ''index.html''
       (join [newline]
          [''<!DOCTYPE html>'',
           ''<html>'',
           ''    <head>'',
           ''            <title>T</title>'',
           ''        </head>'',
           ''    <body>'',
           ''        <p >x</p>'',
           ''            </body>'',
           ''        </html>'',
           ''        <meta >''])"
  by code_simp

text \<open>The final cleanup pops a page frame and emits nothing for it.\<close>

lemma final_cleanup_page_emits_nothing:
  "final_cleanup [(i, BPage, d)] st = Inr (st\<lparr>block_stack := []\<rparr>)"
  by (simp add: close_html_final_def)

text \<open>
  C2.  The claim: every opened structural block has its closing tag in the output,
  also when the end of the script closes it, and a page frame that is open at the end
  of the script gets \<^verbatim>\<open></body>\<close> and \<^verbatim>\<open></html>\<close>.  The final cleanup of the code emits
  nothing for a page frame.  On the script
  \<^verbatim>\<open>psload / psstart / page "T": /     paragraph "x"\<close>
  the file that is written ends with the paragraph.
\<close>

theorem page_open_at_end_not_closed:
  "execute_psu_script H
     [''psload'', ''psstart'',
      ''page '' @ quoted ''T'' @ '':'',
      ''    paragraph '' @ quoted ''x'']
   = Wrote_file ''index.html''
       (join [newline]
          [''<!DOCTYPE html>'',
           ''<html>'',
           ''    <head>'',
           ''            <title>T</title>'',
           ''        </head>'',
           ''    <body>'',
           ''        <p >x</p>''])"
  by code_simp

section \<open>Loops\<close>

text \<open>
  Popping a loop frame in the dedent loop changes the block stack only: the skip flag
  that the loop handler set stays as it is.
\<close>

lemma loop_frame_pop_keeps_skip_flag:
  assumes "n \<le> i"
  shows "close_blocks n [(i, BLoop, d)] st = Inr (st\<lparr>block_stack := []\<rparr>)"
  using assms by (simp add: close_conditional_def close_html_dedent_def)

text \<open>
  C3.  The claim: only the body of a \<^verbatim>\<open>loop\<close> block is suppressed, and the lines after
  the block run.  The loop handler sets the skip flag, and popping the loop frame does
  not clear it.  On the script
  \<^verbatim>\<open>psload / psstart / loop i from 1 to 3: /     paragraph "x" / paragraph "after"\<close>
  the paragraph after the loop is skipped too, and the file that is written is empty.
\<close>

theorem lines_after_loop_skipped:
  "execute_psu_script H
     [''psload'', ''psstart'',
      ''loop i from 1 to 3:'',
      ''    paragraph '' @ quoted ''x'',
      ''paragraph '' @ quoted ''after'']
   = Wrote_file ''index.html'' []"
  by code_simp

section \<open>Attributes\<close>

text \<open>
  C4.  The claim: the attribute parser maps a name with a bare token to the token.  The
  code stores the first value group of every match, and for a bare token that group is
  the empty string: \<^verbatim>\<open>parse_attributes('width=100')\<close> is \<^verbatim>\<open>{'width': ''}\<close>.
\<close>

theorem bare_token_value_lost:
  "parse_attributes ''width=100'' = [(''width'', [])]"
  by code_simp

section \<open>Conditions\<close>

text \<open>
  C6.  The claim: the words \<^verbatim>\<open>true\<close> and \<^verbatim>\<open>false\<close> in any letter case are boolean
  literals in a condition.  The code compares the expression with the two lower-case
  words only, so \<^verbatim>\<open>True\<close> is read as the name of a variable: with no such variable the
  condition \<^verbatim>\<open>if True:\<close> is false.
\<close>

theorem capitalised_true_is_variable:
  "if_condition_result H Map.empty ''True'' = Inr False"
  by code_simp

text \<open>
  C7 as the claim states it fails: a variable that holds the string \<^verbatim>\<open>"false"\<close> makes
  the condition true, since a string that is not empty is true in Python.  On the script
  \<^verbatim>\<open>psload / psstart / set x = "false"; / if x: /     paragraph "shown"\<close>
  the paragraph is emitted.
\<close>

theorem string_false_is_true_counterexample:
  "execute_psu_script example_host
     [''psload'', ''psstart'',
      ''set x = '' @ quoted ''false'' @ '';'',
      ''if x:'',
      ''    paragraph '' @ quoted ''shown'']
   = Wrote_file ''index.html'' ''<p >shown</p>''"
  by code_simp

text \<open>
  C7, amended.  A condition that holds neither \<^verbatim>\<open>==\<close> nor \<^verbatim>\<open>!=\<close> and is not one of the
  words \<^verbatim>\<open>true\<close> and \<^verbatim>\<open>false\<close> is the truth value of the variable of that name: false
  for a name that was never set, for \<^verbatim>\<open>None\<close>, for the boolean false, for the integer 0
  and for the empty string; true for the boolean true, for every other integer and for
  every string that is not empty, the string \<^verbatim>\<open>"false"\<close> among them.  For a float or
  another host object it is what \<^verbatim>\<open>bool\<close> of the host returns or raises.
\<close>

theorem bare_variable_truthiness:
  assumes "\<not> contains e ''==''" and "\<not> contains e ''!=''" and "e \<notin> {''true'', ''false''}"
  shows "if_condition_result H vars e =
     (case vars e of
        None \<Rightarrow> Inr False
      | Some PNone \<Rightarrow> Inr False
      | Some (PBool b) \<Rightarrow> Inr b
      | Some (PInt i) \<Rightarrow> Inr (i \<noteq> 0)
      | Some (PStr s) \<Rightarrow> Inr (s \<noteq> [])
      | Some (PHost h) \<Rightarrow> py_bool H h)"
  using assms by (simp add: if_condition_result_def split: option.splits pyval.splits)

theorem bare_variable_truthiness_witness:
  "\<not> contains ''x'' ''=='' \<and> \<not> contains ''x'' ''!='' \<and> ''x'' \<notin> {''true'', ''false''} \<and>
   if_condition_result example_host [''x'' \<mapsto> PStr ''false''] ''x'' = Inr True \<and>
   if_condition_result example_host [''x'' \<mapsto> PStr []] ''x'' = Inr False \<and>
   if_condition_result example_host [''x'' \<mapsto> PInt 0] ''x'' = Inr False \<and>
   if_condition_result example_host Map.empty ''x'' = Inr False"
proof -
  have h1: "\<not> contains ''x'' ''==''" by code_simp
  have h2: "\<not> contains ''x'' ''!=''" by code_simp
  have h3: "''x'' \<notin> {''true'', ''false''}" by simp
  note t = bare_variable_truthiness [OF h1 h2 h3]
  show ?thesis
    using h1 h2 h3 t [of example_host "[''x'' \<mapsto> PStr ''false'']"]
      t [of example_host "[''x'' \<mapsto> PStr []]"] t [of example_host "[''x'' \<mapsto> PInt 0]"]
      t [of example_host Map.empty]
    by simp
qed

section \<open>Blank lines and comments\<close>

text \<open>
  C5 as the claim states it fails: a comment line closes no block.  On the script
  \<^verbatim>\<open>psload / psstart / container: /     paragraph "a" / .. note /     paragraph "b"\<close>
  the comment stands at the indentation of the container, and the container is still
  open for the second paragraph: its closing tag comes last.
\<close>

theorem comment_line_closes_block_counterexample:
  "execute_psu_script example_host
     [''psload'', ''psstart'',
      ''container:'',
      ''    paragraph '' @ quoted ''a'',
      ''.. note'',
      ''    paragraph '' @ quoted ''b'']
   = Wrote_file ''index.html''
       (join [newline] [''<div >'', ''    <p >a</p>'', ''    <p >b</p>'', ''    </div>''])"
  by code_simp

text \<open>
  C5, amended.  A line that is blank, or whose text begins with \<^verbatim>\<open>..\<close> once the white
  space around it is stripped, is skipped before the dedent loop: no command is parsed,
  no frame is popped or closed, and the state of the interpreter stays as it is.
\<close>

theorem blank_or_comment_line_ignored:
  assumes "strip line = [] \<or> startswith (strip line) ''..''"
  shows "process_line H i line st = Inr st"
  using assms by (auto simp: process_line_def Let_def)

theorem blank_or_comment_line_ignored_witness:
  "startswith (strip ''.. note'') ''..'' \<and>
   process_line example_host 4 ''.. note'' (initial\<lparr>block_stack := [(0, BContainer, Some ''div'')]\<rparr>)
     = Inr (initial\<lparr>block_stack := [(0, BContainer, Some ''div'')]\<rparr>)"
proof -
  have h: "startswith (strip ''.. note'') ''..''" by code_simp
  then have "strip ''.. note'' = [] \<or> startswith (strip ''.. note'') ''..''" by simp
  from blank_or_comment_line_ignored [OF this] h show ?thesis by simp
qed

section \<open>Variables whose evaluation failed\<close>

text \<open>The name that the pattern of \<^verbatim>\<open>set\<close> captures is a word.\<close>

lemma set_match_name:
  assumes "set_match s = Some (var_name, g)"
  shows "var_name \<noteq> []" and "\<forall>c \<in> set var_name. isword c"
proof -
  from assms have v: "var_name = takeWhile isword s" and ne: "takeWhile isword s \<noteq> []"
    by (auto simp: set_match_def split: if_splits list.splits option.splits)
  from v ne show "var_name \<noteq> []" by simp
  from v show "\<forall>c \<in> set var_name. isword c" by (auto dest: set_takeWhileD)
qed

text \<open>Interpolating a single reference to a word is the replacement of that name.\<close>

lemma interpolate_reference:
  assumes "var_name \<noteq> []" and "\<forall>c \<in> set var_name. isword c"
  shows "interpolate_variables H vars (''${'' @ var_name @ ''}'') = replace_var H vars var_name"
proof -
  have nb: "\<not> isword CHR ''}''" by (simp add: isword_def)
  have tw: "takeWhile isword (var_name @ ''}'') = var_name"
    using assms(2) nb by (simp add: takeWhile_append2)
  have dw: "dropWhile isword (var_name @ ''}'') = ''}''"
    using assms(2) nb by (simp add: dropWhile_append2)
  have "var_ref_match (''${'' @ var_name @ ''}'') = Some (var_name, [])"
    using assms(1) tw dw by (simp add: var_ref_match_def startswith_def)
  then show ?thesis by (simp split: sum.splits)
qed

text \<open>
  C10.  A \<^verbatim>\<open>set\<close> whose value is no quoted string, no boolean word and no number goes
  to \<^verbatim>\<open>eval\<close>; when \<^verbatim>\<open>eval\<close> raises \<^verbatim>\<open>NameError\<close>, \<^verbatim>\<open>SyntaxError\<close> or \<^verbatim>\<open>TypeError\<close>
  the variable is stored with the value \<^verbatim>\<open>None\<close>, and interpolating a reference to it
  gives the text \<^verbatim>\<open>None\<close>.  The text \<^verbatim>\<open>UNDEFINED_VAR_\<close> with the name is what the
  reference gives in a store that does not hold the name.
\<close>

theorem failed_set_stores_none:
  assumes "set_match arg_string = Some (var_name, g)"
    and "\<not> (startswith (strip g) [dquote] \<and> endswith (strip g) [dquote])"
    and "lower (strip g) \<notin> {''true'', ''false''}"
    and "\<not> number_match (strip g)"
    and "py_eval H (strip g) (variables st) = (Raised exc, vars)"
    and "exc \<in> {NameError, SyntaxError, TypeError}"
  shows "(\<exists>st1. cmd_set H arg_string st = Inr st1 \<and>
            variables st1 = vars(var_name \<mapsto> PNone) \<and>
            interpolate_variables H (variables st1) (''${'' @ var_name @ ''}'') = Inr ''None'') \<and>
         interpolate_variables H (vars(var_name := None)) (''${'' @ var_name @ ''}'')
           = Inr (''UNDEFINED_VAR_'' @ var_name)"
proof -
  note nm = set_match_name [OF assms(1)]
  let ?st1 = "assign var_name PNone
     (print_warning
        (''Warning: Could not evaluate expression for '' @ [CHR 0x27] @ var_name @ [CHR 0x27] @
         '': '' @ [CHR 0x27] @ strip g @ [CHR 0x27])
        (st\<lparr>variables := vars\<rparr>))"
  have run: "cmd_set H arg_string st = Inr ?st1"
    using assms by (auto simp: cmd_set_def Let_def)
  have vars1: "variables ?st1 = vars(var_name \<mapsto> PNone)"
    by (simp add: assign_def print_warning_def)
  have "interpolate_variables H (variables ?st1) (''${'' @ var_name @ ''}'') = Inr ''None''"
    unfolding vars1 interpolate_reference [OF nm] by (simp add: replace_var_def)
  moreover have "interpolate_variables H (vars(var_name := None)) (''${'' @ var_name @ ''}'')
           = Inr (''UNDEFINED_VAR_'' @ var_name)"
    unfolding interpolate_reference [OF nm] by (simp add: replace_var_def)
  ultimately show ?thesis using run vars1 by blast
qed

theorem failed_set_stores_none_witness:
  "(\<exists>st1. cmd_set example_host ''x = y + 1;'' initial = Inr st1 \<and>
      variables st1 = Map.empty(''x'' \<mapsto> PNone) \<and>
      interpolate_variables example_host (variables st1) ''${x}'' = Inr ''None'') \<and>
   interpolate_variables example_host (Map.empty(''x'' := None)) ''${x}'' = Inr ''UNDEFINED_VAR_x''"
proof -
  have h1: "set_match ''x = y + 1;'' = Some (''x'', ''y + 1'')" by code_simp
  have s: "strip ''y + 1'' = ''y + 1''" by code_simp
  have h2: "\<not> (startswith (strip ''y + 1'') [dquote] \<and> endswith (strip ''y + 1'') [dquote])"
    by code_simp
  have h3: "lower (strip ''y + 1'') \<notin> {''true'', ''false''}" by code_simp
  have h4: "\<not> number_match (strip ''y + 1'')" by code_simp
  have h5: "py_eval example_host (strip ''y + 1'') (variables initial) = (Raised NameError, Map.empty)"
    by (simp add: example_host_def initial_def)
  have h6: "NameError \<in> {NameError, SyntaxError, TypeError}" by simp
  from failed_set_stores_none [OF h1 h2 h3 h4 h5 h6] show ?thesis by simp
qed

text \<open>The same in a run: one name with a failed \<^verbatim>\<open>set\<close>, one that was never set.\<close>

lemma failed_set_in_a_run:
  "execute_psu_script example_host
     [''psload'', ''psstart'',
      ''set x = y + 1;'',
      ''paragraph '' @ quoted ''x is ${x}, z is ${z}'']
   = Wrote_file ''index.html'' ''<p >x is None, z is UNDEFINED_VAR_z</p>''"
  by code_simp

end
